theory Spec2Isabelle
  imports Complex_Main
begin

section \<open>JavaScript values\<close>

text \<open>
  The values a validated request carries: \<open>undefined\<close>, \<open>null\<close>, booleans, numbers,
  strings, arrays and plain objects. A finite number is carried by its exact rational
  value (every finite double is one); the operations below only compare numbers and
  never do arithmetic on them, and \<open>-0\<close> is identified with \<open>0\<close> (no operation below
  tells them apart). A string is a list of 8-bit characters.
\<close>

datatype jsnum = Finite rat | NaN | PosInf | NegInf

datatype jsval =
    Undefined
  | Null
  | Bool bool
  | Num jsnum
  | Str string
  | Arr "jsval list"
  | Obj "(string \<times> jsval) list"

text \<open>
  A tip (the message argument of a chain operation) is any value; \<open>isAlphanumeric\<close>
  passes the Validator object itself in that position, which \<open>TipThis\<close> records by the
  object's reference.
\<close>

datatype tip = Tip jsval | TipThis nat

text \<open>
  What a call can throw: \<open>new ValidationError(key, message)\<close>, the error of a failed
  \<open>assert(...)\<close> of better-assert, the runtime's TypeError, and any other fault of a
  user-supplied function (opaque, told apart by a number).
\<close>

datatype fault =
    ValidationError "string option" tip
  | AssertionError
  | TypeError
  | UserFault nat

text \<open>lodash's \<open>_.isUndefined\<close>, \<open>_.isString\<close>, \<open>_.isNumber\<close>.\<close>

fun isUndefined :: "jsval \<Rightarrow> bool" where
  "isUndefined Undefined = True"
| "isUndefined _ = False"

fun isString_val :: "jsval \<Rightarrow> bool" where
  "isString_val (Str _) = True"
| "isString_val _ = False"

fun isNumber :: "jsval \<Rightarrow> bool" where
  "isNumber (Num _) = True"
| "isNumber _ = False"

text \<open>Truthiness, as \<open>||\<close> and \<open>!\<close> read it.\<close>

fun truthy :: "jsval \<Rightarrow> bool" where
  "truthy Undefined = False"
| "truthy Null = False"
| "truthy (Bool b) = b"
| "truthy (Num (Finite q)) = (q \<noteq> 0)"
| "truthy (Num NaN) = False"
| "truthy (Num _) = True"
| "truthy (Str s) = (s \<noteq> [])"
| "truthy (Arr _) = True"
| "truthy (Obj _) = True"

fun truthy_tip :: "tip \<Rightarrow> bool" where
  "truthy_tip (Tip v) = truthy v"
| "truthy_tip (TipThis _) = True"

text \<open>\<open>tip || dflt\<close>\<close>

definition or_else :: "tip \<Rightarrow> tip \<Rightarrow> tip" where
  "or_else t dflt = (if truthy_tip t then t else dflt)"

text \<open>The relational operators \<open><=\<close> and \<open><\<close> on two numbers.\<close>

fun num_le :: "jsnum \<Rightarrow> jsnum \<Rightarrow> bool" where
  "num_le NaN _ = False"
| "num_le _ NaN = False"
| "num_le NegInf _ = True"
| "num_le _ PosInf = True"
| "num_le (Finite a) (Finite b) = (a \<le> b)"
| "num_le PosInf _ = False"
| "num_le _ NegInf = False"

fun num_lt :: "jsnum \<Rightarrow> jsnum \<Rightarrow> bool" where
  "num_lt NaN _ = False"
| "num_lt _ NaN = False"
| "num_lt PosInf _ = False"
| "num_lt _ NegInf = False"
| "num_lt (Finite a) (Finite b) = (a < b)"
| "num_lt NegInf _ = True"
| "num_lt _ PosInf = True"

text \<open>
  \<open>isSafeInteger(n)\<close>: \<open>Number.MIN_SAFE_INTEGER <= n && n <= Number.MAX_SAFE_INTEGER\<close>,
  the bounds being \<open>-(2^53 - 1)\<close> and \<open>2^53 - 1\<close>.
\<close>

definition MAX_SAFE_INTEGER :: rat where
  "MAX_SAFE_INTEGER = 9007199254740991"

definition MIN_SAFE_INTEGER :: rat where
  "MIN_SAFE_INTEGER = - 9007199254740991"

definition isSafeInteger :: "jsnum \<Rightarrow> bool" where
  "isSafeInteger n \<longleftrightarrow>
     num_le (Finite MIN_SAFE_INTEGER) n \<and> num_le n (Finite MAX_SAFE_INTEGER)"

section \<open>The session: value store, validators, cache\<close>

text \<open>
  A Validator object holds its \<open>key\<close>, its \<open>_isOptional\<close> flag and its \<open>type\<close>; its
  \<open>ctx\<close> and \<open>vals\<close> fields are references to the session's context and to the session's
  one store \<open>ctx.vals\<close>, so they are the enclosing session here. Validator objects are
  mutable and shared, so they live in a heap and are named by reference.
\<close>

record validator =
  key :: string
  isOptional_flag :: bool
  type :: jsval

text \<open>
  The Koa context of one request as the middleware sets it up: the raw inputs
  (\<open>ctx.params\<close>, \<open>ctx.query\<close>, \<open>ctx.request.body\<close>), the store \<open>ctx.vals\<close>, the
  Validator objects allocated so far (\<open>next_ref\<close> is the next free reference) and the
  \<open>validators\<close> Map of the middleware's closure. The store and the raw inputs are
  read by key; a key is taken not to name a member of \<open>Object.prototype\<close>, so that a
  key never written reads as \<open>undefined\<close>.
\<close>

record session =
  params :: "string \<rightharpoonup> jsval"
  query :: "string \<rightharpoonup> jsval"
  body :: "string \<rightharpoonup> jsval"
  vals :: "string \<rightharpoonup> jsval"
  heap :: "nat \<Rightarrow> validator"
  next_ref :: nat
  validators :: "string \<rightharpoonup> nat"

text \<open>
  A call runs on the session, may change it, and returns a value or throws; what it
  changed before throwing stays changed.
\<close>

type_synonym 'a eff = "session \<Rightarrow> (fault + 'a) \<times> session"

text \<open>An argument that may be a function: a user function is called with its arguments
  and \<open>this\<close> bound to the context.\<close>

datatype jsarg = Value jsval | Function "jsval list \<Rightarrow> jsval eff"

text \<open>Method chaining \<open>m.f(...)\<close>: \<open>f\<close> runs on what \<open>m\<close> returned, unless \<open>m\<close> threw.\<close>

definition chain :: "'a eff \<Rightarrow> ('a \<Rightarrow> 'b eff) \<Rightarrow> 'b eff" where
  "chain m f s = (case m s of (Inl e, s') \<Rightarrow> (Inl e, s') | (Inr a, s') \<Rightarrow> f a s')"

text \<open>Reading a property: a missing one reads as \<open>undefined\<close>.\<close>

definition get_prop :: "(string \<rightharpoonup> jsval) \<Rightarrow> string \<Rightarrow> jsval" where
  "get_prop obj k = (case obj k of None \<Rightarrow> Undefined | Some v \<Rightarrow> v)"

text \<open>\<open>this.val()\<close>\<close>

definition val :: "nat \<Rightarrow> session \<Rightarrow> jsval" where
  "val this s = get_prop (vals s) (key (heap s this))"

text \<open>\<open>this.vals[this.key] = v\<close>\<close>

definition set_val :: "nat \<Rightarrow> jsval \<Rightarrow> session \<Rightarrow> session" where
  "set_val this v s = s\<lparr>vals := (vals s)(key (heap s this) \<mapsto> v)\<rparr>"

text \<open>\<open>this._isOptional = b\<close>\<close>

definition set_isOptional :: "nat \<Rightarrow> bool \<Rightarrow> session \<Rightarrow> session" where
  "set_isOptional this b s = s\<lparr>heap := (heap s)(this := (heap s this)\<lparr>isOptional_flag := b\<rparr>)\<rparr>"

text \<open>\<open>this.throwError(tip)\<close>\<close>

definition throwError :: "tip \<Rightarrow> nat \<Rightarrow> 'a eff" where
  "throwError t this s =
     (let k = key (heap s this)
      in (Inl (ValidationError (Some k) (or_else t (Tip (Str (''Invalid value for '' @ k))))), s))"

text \<open>\<open>this.isOptional()\<close>\<close>

definition isOptional :: "nat \<Rightarrow> session \<Rightarrow> bool \<times> session" where
  "isOptional this s =
     (let s' = (if isOptional_flag (heap s this) \<and> \<not> isUndefined (val this s)
                then set_isOptional this False s else s)
      in (isOptional_flag (heap s' this), s'))"

text \<open>\<open>optionalFn(fn)\<close>, and \<open>Validator.addMethod(name, fn)\<close>, which registers
  \<open>optionalFn(fn)\<close> under the name.\<close>

definition optionalFn :: "(nat \<Rightarrow> nat eff) \<Rightarrow> nat \<Rightarrow> nat eff" where
  "optionalFn fn this s =
     (case isOptional this s of
        (True, s') \<Rightarrow> (Inr this, s')
      | (False, s') \<Rightarrow> fn this s')"

definition addMethod :: "(nat \<Rightarrow> nat eff) \<Rightarrow> nat \<Rightarrow> nat eff" where
  "addMethod fn = optionalFn fn"

section \<open>The runtime and the validator library\<close>

text \<open>
  The functions of the third-party \<open>validator\<close> package (\<open>v\<close> in the source) and the
  runtime's formatting of a number as a string are not part of the program: they are
  parameters. \<open>v.isInt\<close> receives its whole argument list, since \<open>_.every\<close> calls it with
  the element, its index and the array.
\<close>

record externals =
  v_isInt :: "jsval list \<Rightarrow> bool"
  v_isBase64 :: "jsval \<Rightarrow> bool"
  v_isEmail :: "jsval \<Rightarrow> bool"
  v_isHexColor :: "jsval \<Rightarrow> bool"
  Number_toString :: "jsnum \<Rightarrow> string"

text \<open>\<open>Array.prototype.join\<close> with the default separator, on elements already
  converted.\<close>

fun join :: "string list \<Rightarrow> string" where
  "join [] = []"
| "join [x] = x"
| "join (x # y # ys) = x @ '','' @ join (y # ys)"

text \<open>
  The conversion of a value to a string, as \<open>RegExp.prototype.test\<close>, \<open>parseInt\<close>,
  string concatenation and property lookup apply it. It can throw. A plain object is
  converted by calling its \<open>toString\<close> and then its \<open>valueOf\<close>, the first that is callable
  and returns a primitive giving the result: without an own property \<open>toString\<close> that
  is \<open>Object.prototype.toString\<close>, which prints \<open>[object Object]\<close>; with one (a value of
  this universe, none of which is callable) neither method gives a primitive, and the
  conversion is a TypeError. An array joins the conversions of its elements, \<open>null\<close> and
  \<open>undefined\<close> printing as nothing, and throws when one of them does.
\<close>

fun ToString :: "externals \<Rightarrow> jsval \<Rightarrow> fault + string"
  and ToString_elements :: "externals \<Rightarrow> jsval list \<Rightarrow> fault + string list" where
  "ToString x Undefined = Inr ''undefined''"
| "ToString x Null = Inr ''null''"
| "ToString x (Bool b) = Inr (if b then ''true'' else ''false'')"
| "ToString x (Num n) = Inr (Number_toString x n)"
| "ToString x (Str s) = Inr s"
| "ToString x (Arr vs) =
     (case ToString_elements x vs of Inl e \<Rightarrow> Inl e | Inr strs \<Rightarrow> Inr (join strs))"
| "ToString x (Obj kvs) =
     (if map_of kvs ''toString'' \<noteq> None then Inl TypeError else Inr ''[object Object]'')"
| "ToString_elements x [] = Inr []"
| "ToString_elements x (v # vs) =
     (case (if v = Undefined \<or> v = Null then Inr [] else ToString x v) of
        Inl e \<Rightarrow> Inl e
      | Inr str \<Rightarrow>
          (case ToString_elements x vs of
             Inl e \<Rightarrow> Inl e
           | Inr strs \<Rightarrow> Inr (str # strs)))"

definition isWhiteSpace :: "char \<Rightarrow> bool" where
  "isWhiteSpace c \<longleftrightarrow> (of_char c :: nat) \<in> set [9, 10, 11, 12, 13, 32, 160]"

definition isDigit :: "char \<Rightarrow> bool" where
  "isDigit c \<longleftrightarrow> 48 \<le> (of_char c :: nat) \<and> (of_char c :: nat) \<le> 57"

definition isLower :: "char \<Rightarrow> bool" where
  "isLower c \<longleftrightarrow> 97 \<le> (of_char c :: nat) \<and> (of_char c :: nat) \<le> 122"

definition isUpper :: "char \<Rightarrow> bool" where
  "isUpper c \<longleftrightarrow> 65 \<le> (of_char c :: nat) \<and> (of_char c :: nat) \<le> 90"

definition digits_value :: "string \<Rightarrow> int" where
  "digits_value ds = foldl (\<lambda>acc c. 10 * acc + (int (of_char c) - 48)) 0 ds"

text \<open>
  \<open>parseInt(v, 10)\<close>: leading white space is dropped, a sign is read, and the longest
  prefix of decimal digits is the value; no digit gives \<open>NaN\<close>. The value is kept exact
  here, where the runtime rounds to a double: an integer within the safe range is its
  own double, and one beyond it rounds to a double beyond it, so \<open>isSafeInteger\<close>
  answers the same on both, and both callers store the result only when it is safe.
\<close>

definition parseInt_string :: "string \<Rightarrow> jsnum" where
  "parseInt_string str =
     (let S = dropWhile isWhiteSpace str;
          neg = (S \<noteq> [] \<and> hd S = CHR ''-'');
          S' = (if S \<noteq> [] \<and> (hd S = CHR ''-'' \<or> hd S = CHR ''+'') then tl S else S);
          Z = takeWhile isDigit S'
      in if Z = [] then NaN
         else Finite (of_int ((if neg then - 1 else 1) * digits_value Z)))"

definition parseInt :: "externals \<Rightarrow> jsval \<Rightarrow> fault + jsnum" where
  "parseInt x v =
     (case ToString x v of Inl e \<Rightarrow> Inl e | Inr str \<Rightarrow> Inr (parseInt_string str))"

text \<open>\<open>String.prototype.trim\<close>\<close>

definition trim_string :: "string \<Rightarrow> string" where
  "trim_string str = rev (dropWhile isWhiteSpace (rev (dropWhile isWhiteSpace str)))"

text \<open>Reading \<open>.length\<close>: a TypeError on \<open>undefined\<close> and \<open>null\<close>.\<close>

fun length_prop :: "jsval \<Rightarrow> fault + jsval" where
  "length_prop Undefined = Inl TypeError"
| "length_prop Null = Inl TypeError"
| "length_prop (Str s) = Inr (Num (Finite (of_nat (length s))))"
| "length_prop (Arr vs) = Inr (Num (Finite (of_nat (length vs))))"
| "length_prop (Obj kvs) =
     Inr (case map_of kvs ''length'' of None \<Rightarrow> Undefined | Some v \<Rightarrow> v)"
| "length_prop _ = Inr Undefined"

subsection \<open>The regular expressions of the format validators\<close>

text \<open>\<open>/^[a-z]*$/i\<close>, \<open>/^[a-z0-9]*$/i\<close>, \<open>/^[0-9]*$/\<close>, \<open>/^[\x00-\x7F]*$/\<close>\<close>

definition re_alpha :: "string \<Rightarrow> bool" where
  "re_alpha str = list_all (\<lambda>c. isLower c \<or> isUpper c) str"

definition re_alphanumeric :: "string \<Rightarrow> bool" where
  "re_alphanumeric str = list_all (\<lambda>c. isLower c \<or> isUpper c \<or> isDigit c) str"

definition re_numeric :: "string \<Rightarrow> bool" where
  "re_numeric str = list_all isDigit str"

definition re_ascii :: "string \<Rightarrow> bool" where
  "re_ascii str = list_all (\<lambda>c. (of_char c :: nat) \<le> 127) str"

text \<open>
  The UUID patterns are sequences of character classes of fixed length, matched
  case-insensitively against the whole string: \<open>[0-9A-F]\<close>, a literal character, and
  \<open>[89AB]\<close>.
\<close>

definition hexdigit :: "char \<Rightarrow> bool" where
  "hexdigit c \<longleftrightarrow> isDigit c \<or> c \<in> set ''ABCDEFabcdef''"

definition lit :: "char \<Rightarrow> char \<Rightarrow> bool" where
  "lit a c \<longleftrightarrow> c = a"

definition variant :: "char \<Rightarrow> bool" where
  "variant c \<longleftrightarrow> c \<in> set ''89ABab''"

definition matches :: "(char \<Rightarrow> bool) list \<Rightarrow> string \<Rightarrow> bool" where
  "matches classes str = list_all2 (\<lambda>cl c. cl c) classes str"

definition uuid_v3 :: "(char \<Rightarrow> bool) list" where
  "uuid_v3 = replicate 8 hexdigit @ [lit CHR ''-''] @ replicate 4 hexdigit @ [lit CHR ''-'']
     @ [lit CHR ''3''] @ replicate 3 hexdigit @ [lit CHR ''-'']
     @ replicate 4 hexdigit @ [lit CHR ''-''] @ replicate 12 hexdigit"

definition uuid_v4 :: "(char \<Rightarrow> bool) list" where
  "uuid_v4 = replicate 8 hexdigit @ [lit CHR ''-''] @ replicate 4 hexdigit @ [lit CHR ''-'']
     @ [lit CHR ''4''] @ replicate 3 hexdigit @ [lit CHR ''-'']
     @ [variant] @ replicate 3 hexdigit @ [lit CHR ''-''] @ replicate 12 hexdigit"

definition uuid_v5 :: "(char \<Rightarrow> bool) list" where
  "uuid_v5 = replicate 8 hexdigit @ [lit CHR ''-''] @ replicate 4 hexdigit @ [lit CHR ''-'']
     @ [lit CHR ''5''] @ replicate 3 hexdigit @ [lit CHR ''-'']
     @ [variant] @ replicate 3 hexdigit @ [lit CHR ''-''] @ replicate 12 hexdigit"

definition uuid_all :: "(char \<Rightarrow> bool) list" where
  "uuid_all = replicate 8 hexdigit @ [lit CHR ''-''] @ replicate 4 hexdigit @ [lit CHR ''-'']
     @ replicate 4 hexdigit @ [lit CHR ''-'']
     @ replicate 4 hexdigit @ [lit CHR ''-''] @ replicate 12 hexdigit"

text \<open>The table \<open>re\<close> of \<open>isUuid\<close>, read by \<open>re[version]\<close>.\<close>

definition re_uuid :: "string \<rightharpoonup> (char \<Rightarrow> bool) list" where
  "re_uuid = [''v3'' \<mapsto> uuid_v3, ''v4'' \<mapsto> uuid_v4, ''v5'' \<mapsto> uuid_v5, ''all'' \<mapsto> uuid_all]"

section \<open>Built-in methods\<close>

text \<open>
  A method takes its arguments, then the reference of the Validator it is called on,
  and runs on the session; it returns that reference (\<open>return this\<close>) or throws. A
  failed \<open>assert(...)\<close> throws \<open>AssertionError\<close>. \<open>required\<close> and \<open>optional\<close> are
  assigned to the prototype directly; every other method is registered with
  \<open>Validator.addMethod\<close>.
\<close>

definition required :: "tip \<Rightarrow> nat \<Rightarrow> nat eff" where
  "required t this s =
     (if isUndefined (val this s)
      then throwError (or_else t (Tip (Str (key (heap s this) @ '' must not be empty'')))) this s
      else (Inr this, s))"

definition optional :: "nat \<Rightarrow> nat eff" where
  "optional this s =
     (if isUndefined (val this s) then (Inr this, set_isOptional this True s)
      else (Inr this, s))"

definition gt_fn :: "jsval \<Rightarrow> tip \<Rightarrow> nat \<Rightarrow> nat eff" where
  "gt_fn otherValue t this s =
     (case val this s of
        Num a \<Rightarrow>
          (case otherValue of
             Num b \<Rightarrow>
               if num_le a b
               then throwError (or_else t (Tip (Str (''Invalid '' @ key (heap s this))))) this s
               else (Inr this, s)
           | _ \<Rightarrow> (Inl AssertionError, s))
      | _ \<Rightarrow> (Inl AssertionError, s))"

definition gt :: "jsval \<Rightarrow> tip \<Rightarrow> nat \<Rightarrow> nat eff" where
  "gt otherValue t = addMethod (gt_fn otherValue t)"

definition gte_fn :: "jsval \<Rightarrow> tip \<Rightarrow> nat \<Rightarrow> nat eff" where
  "gte_fn otherValue t this s =
     (case val this s of
        Num a \<Rightarrow>
          (case otherValue of
             Num b \<Rightarrow>
               if num_lt a b
               then throwError (or_else t (Tip (Str (''Invalid '' @ key (heap s this))))) this s
               else (Inr this, s)
           | _ \<Rightarrow> (Inl AssertionError, s))
      | _ \<Rightarrow> (Inl AssertionError, s))"

definition gte :: "jsval \<Rightarrow> tip \<Rightarrow> nat \<Rightarrow> nat eff" where
  "gte otherValue t = addMethod (gte_fn otherValue t)"

definition defaultTo_fn :: "jsarg \<Rightarrow> nat \<Rightarrow> nat eff" where
  "defaultTo_fn valueOrFunction this s =
     (if isUndefined (val this s)
      then (case valueOrFunction of
              Function f \<Rightarrow>
                (case f [] s of
                   (Inl e, s') \<Rightarrow> (Inl e, s')
                 | (Inr v, s') \<Rightarrow> (Inr this, set_val this v s'))
            | Value v \<Rightarrow> (Inr this, set_val this v s))
      else (Inr this, set_val this (val this s) s))"

definition defaultTo :: "jsarg \<Rightarrow> nat \<Rightarrow> nat eff" where
  "defaultTo valueOrFunction = addMethod (defaultTo_fn valueOrFunction)"

definition isString_fn :: "tip \<Rightarrow> nat \<Rightarrow> nat eff" where
  "isString_fn t this s =
     (if \<not> isString_val (val this s)
      then throwError (or_else t (Tip (Str (key (heap s this) @ '' must be a string'')))) this s
      else (Inr this, s))"

definition isString :: "tip \<Rightarrow> nat \<Rightarrow> nat eff" where
  "isString t = addMethod (isString_fn t)"

definition toInt_fn :: "externals \<Rightarrow> tip \<Rightarrow> nat \<Rightarrow> nat eff" where
  "toInt_fn x t this s =
     (if \<not> v_isInt x [val this s]
      then throwError (or_else t (Tip (Str (key (heap s this) @ '' must be an integer'')))) this s
      else
        (case parseInt x (val this s) of
           Inl e \<Rightarrow> (Inl e, s)
         | Inr num \<Rightarrow>
             if \<not> isSafeInteger num
             then throwError
                    (or_else t (Tip (Str (key (heap s this) @ '' is out of integer range''))))
                    this s
             else (Inr this, set_val this (Num num) s)))"

definition toInt :: "externals \<Rightarrow> tip \<Rightarrow> nat \<Rightarrow> nat eff" where
  "toInt x t = addMethod (toInt_fn x t)"

text \<open>\<open>_.every(array, predicate)\<close> calls the predicate with each element, its index and
  the array.\<close>

definition every :: "jsval list \<Rightarrow> (jsval list \<Rightarrow> bool) \<Rightarrow> bool" where
  "every vs predicate =
     list_all (\<lambda>(i, v). predicate [v, Num (Finite (of_nat i)), Arr vs]) (enumerate 0 vs)"

text \<open>\<open>array.map(f)\<close> for an \<open>f\<close> that can throw: the first fault ends the loop.\<close>

fun array_map :: "('a \<Rightarrow> fault + 'b) \<Rightarrow> 'a list \<Rightarrow> fault + 'b list" where
  "array_map f [] = Inr []"
| "array_map f (v # vs) =
     (case f v of
        Inl e \<Rightarrow> Inl e
      | Inr y \<Rightarrow> (case array_map f vs of Inl e \<Rightarrow> Inl e | Inr ys \<Rightarrow> Inr (y # ys)))"

definition toInts_fn :: "externals \<Rightarrow> tip \<Rightarrow> nat \<Rightarrow> nat eff" where
  "toInts_fn x t this s =
     (case val this s of
        Arr vs \<Rightarrow>
          if \<not> every vs (v_isInt x)
          then throwError
                 (or_else t (Tip (Str (key (heap s this) @ '' must be an array of integers''))))
                 this s
          else
            (case array_map (parseInt x) vs of
               Inl e \<Rightarrow> (Inl e, s)
             | Inr results \<Rightarrow>
                 if \<not> list_all isSafeInteger results
                 then throwError
                        (or_else t (Tip (Str (key (heap s this)
                           @ '' must not contain numbers out of integer range'')))) this s
                 else (Inr this, set_val this (Arr (map Num results)) s))
      | _ \<Rightarrow> (Inl AssertionError, s))"

definition toInts :: "externals \<Rightarrow> tip \<Rightarrow> nat \<Rightarrow> nat eff" where
  "toInts x t = addMethod (toInts_fn x t)"

definition trim_fn :: "nat \<Rightarrow> nat eff" where
  "trim_fn this s =
     (case val this s of
        Str str \<Rightarrow> (Inr this, set_val this (Str (trim_string str)) s)
      | _ \<Rightarrow> (Inl AssertionError, s))"

definition trim :: "nat \<Rightarrow> nat eff" where
  "trim = addMethod trim_fn"

text \<open>\<open>tap(f)\<close>: \<open>f\<close> is called on the current value; a ValidationError it throws is
  replaced by \<open>this.throwError()\<close>, any other fault is thrown again.\<close>

definition tap_fn :: "jsarg \<Rightarrow> nat \<Rightarrow> nat eff" where
  "tap_fn f this s =
     (case f of
        Function g \<Rightarrow>
          (case g [val this s] s of
             (Inl ex, s') \<Rightarrow>
               (case ex of
                  ValidationError k m \<Rightarrow> throwError (Tip Undefined) this s'
                | _ \<Rightarrow> (Inl ex, s'))
           | (Inr result, s') \<Rightarrow> (Inr this, set_val this result s'))
      | Value v \<Rightarrow> (Inl AssertionError, s))"

definition tap :: "jsarg \<Rightarrow> nat \<Rightarrow> nat eff" where
  "tap f = addMethod (tap_fn f)"

section \<open>More specific validator methods\<close>

text \<open>
  Each computes its message first (\<open>tip = tip || ...\<close>), calls \<open>this.isString(...)\<close> where
  the source does (the registered, wrapped method), and then tests the value.
  \<open>re.test(v)\<close> converts \<open>v\<close> to a string first, and throws when the conversion does.
\<close>

definition test :: "(string \<Rightarrow> bool) \<Rightarrow> externals \<Rightarrow> jsval \<Rightarrow> fault + bool" where
  "test re x v = (case ToString x v of Inl e \<Rightarrow> Inl e | Inr str \<Rightarrow> Inr (re str))"

definition isAlpha_fn :: "externals \<Rightarrow> tip \<Rightarrow> nat \<Rightarrow> nat eff" where
  "isAlpha_fn x t this s =
     (let t' = or_else t (Tip (Str (key (heap s this) @ '' must only contain chars a-z'')))
      in chain (isString t' this)
           (\<lambda>_ s'. case test re_alpha x (val this s') of
                      Inl e \<Rightarrow> (Inl e, s')
                    | Inr ok \<Rightarrow> if \<not> ok then throwError t' this s' else (Inr this, s')) s)"

definition isAlpha :: "externals \<Rightarrow> tip \<Rightarrow> nat \<Rightarrow> nat eff" where
  "isAlpha x t = addMethod (isAlpha_fn x t)"

text \<open>\<open>isAlphanumeric\<close> calls \<open>this.isString(this)\<close>.\<close>

definition isAlphanumeric_fn :: "externals \<Rightarrow> tip \<Rightarrow> nat \<Rightarrow> nat eff" where
  "isAlphanumeric_fn x t this s =
     (let t' = or_else t
                 (Tip (Str (key (heap s this) @ '' must must be alphanumeric (a-z, 0-9)'')))
      in chain (isString (TipThis this) this)
           (\<lambda>_ s'. case test re_alphanumeric x (val this s') of
                      Inl e \<Rightarrow> (Inl e, s')
                    | Inr ok \<Rightarrow> if \<not> ok then throwError t' this s' else (Inr this, s')) s)"

definition isAlphanumeric :: "externals \<Rightarrow> tip \<Rightarrow> nat \<Rightarrow> nat eff" where
  "isAlphanumeric x t = addMethod (isAlphanumeric_fn x t)"

definition isNumeric_fn :: "externals \<Rightarrow> tip \<Rightarrow> nat \<Rightarrow> nat eff" where
  "isNumeric_fn x t this s =
     (let t' = or_else t (Tip (Str (key (heap s this) @ '' must must only contain numbers'')))
      in chain (isString t' this)
           (\<lambda>_ s'. case test re_numeric x (val this s') of
                      Inl e \<Rightarrow> (Inl e, s')
                    | Inr ok \<Rightarrow> if \<not> ok then throwError t' this s' else (Inr this, s')) s)"

definition isNumeric :: "externals \<Rightarrow> tip \<Rightarrow> nat \<Rightarrow> nat eff" where
  "isNumeric x t = addMethod (isNumeric_fn x t)"

text \<open>\<open>isAscii\<close> has no call of \<open>this.isString\<close>.\<close>

definition isAscii_fn :: "externals \<Rightarrow> tip \<Rightarrow> nat \<Rightarrow> nat eff" where
  "isAscii_fn x t this s =
     (let t' = or_else t (Tip (Str (key (heap s this) @ '' must contain only ASCII chars'')))
      in case test re_ascii x (val this s) of
           Inl e \<Rightarrow> (Inl e, s)
         | Inr ok \<Rightarrow> if \<not> ok then throwError t' this s else (Inr this, s))"

definition isAscii :: "externals \<Rightarrow> tip \<Rightarrow> nat \<Rightarrow> nat eff" where
  "isAscii x t = addMethod (isAscii_fn x t)"

definition isBase64_fn :: "externals \<Rightarrow> tip \<Rightarrow> nat \<Rightarrow> nat eff" where
  "isBase64_fn x t this s =
     (let t' = or_else t (Tip (Str (key (heap s this) @ '' must be base64 encoded'')))
      in chain (isString t' this)
           (\<lambda>_ s'. case length_prop (val this s') of
                      Inl e \<Rightarrow> (Inl e, s')
                    | Inr n \<Rightarrow>
                        if n = Num (Finite 0) then (Inr this, s')
                        else if \<not> v_isBase64 x (val this s') then throwError t' this s'
                        else (Inr this, s')) s)"

definition isBase64 :: "externals \<Rightarrow> tip \<Rightarrow> nat \<Rightarrow> nat eff" where
  "isBase64 x t = addMethod (isBase64_fn x t)"

definition isEmail_fn :: "externals \<Rightarrow> tip \<Rightarrow> nat \<Rightarrow> nat eff" where
  "isEmail_fn x t this s =
     (let t' = or_else t (Tip (Str (key (heap s this) @ '' must be a valid email address'')))
      in chain (isString t' this)
           (\<lambda>_ s'. if \<not> v_isEmail x (val this s') then throwError t' this s'
                    else (Inr this, s')) s)"

definition isEmail :: "externals \<Rightarrow> tip \<Rightarrow> nat \<Rightarrow> nat eff" where
  "isEmail x t = addMethod (isEmail_fn x t)"

definition isHexColor_fn :: "externals \<Rightarrow> tip \<Rightarrow> nat \<Rightarrow> nat eff" where
  "isHexColor_fn x t this s =
     (let t' = or_else t (Tip (Str (key (heap s this) @ '' must be a hex color'')))
      in chain (isString t' this)
           (\<lambda>_ s'. if \<not> v_isHexColor x (val this s') then throwError t' this s'
                    else (Inr this, s')) s)"

definition isHexColor :: "externals \<Rightarrow> tip \<Rightarrow> nat \<Rightarrow> nat eff" where
  "isHexColor x t = addMethod (isHexColor_fn x t)"

text \<open>
  \<open>isUuid(version, tip)\<close>: a missing argument is \<open>undefined\<close>. The two leading branches
  settle which argument is which. The default message is built only when the tip is
  falsy, and appends the version, converted to a string, unless it is \<open>'all'\<close>.
  \<open>re[version]\<close> converts the version to a property name; it is \<open>undefined\<close> for a name
  that is not in the table (a member of \<open>Object.prototype\<close> has no \<open>test\<close> either), and
  calling \<open>.test\<close> on it is a TypeError.
\<close>

definition isUuid_args :: "jsval \<Rightarrow> tip \<Rightarrow> jsval \<times> tip" where
  "isUuid_args version t =
     (if isString_val version \<and> t = Tip Undefined
      then (if version \<notin> set [Str ''v3'', Str ''v4'', Str ''v5'', Str ''all'']
            then (Str ''all'', Tip version) else (version, t))
      else if isUndefined version \<and> t = Tip Undefined then (Str ''all'', t)
      else (version, t))"

definition isUuid_tip :: "externals \<Rightarrow> jsval \<Rightarrow> tip \<Rightarrow> string \<Rightarrow> fault + tip" where
  "isUuid_tip x version t k =
     (if truthy_tip t then Inr t
      else if version \<noteq> Str ''all''
      then (case ToString x version of
              Inl e \<Rightarrow> Inl e
            | Inr str \<Rightarrow> Inr (Tip (Str (k @ '' must be a UUID'' @ str))))
      else Inr (Tip (Str (k @ '' must be a UUID''))))"

definition isUuid_fn :: "externals \<Rightarrow> jsval \<Rightarrow> tip \<Rightarrow> nat \<Rightarrow> nat eff" where
  "isUuid_fn x version t this s =
     (let version' = fst (isUuid_args version t)
      in (case isUuid_tip x version' (snd (isUuid_args version t)) (key (heap s this)) of
            Inl e \<Rightarrow> (Inl e, s)
          | Inr t' \<Rightarrow>
              (case ToString x version' of
                 Inl e \<Rightarrow> (Inl e, s)
               | Inr name \<Rightarrow>
                   (case re_uuid name of
                      None \<Rightarrow> (Inl TypeError, s)
                    | Some re \<Rightarrow>
                        (case test (matches re) x (val this s) of
                           Inl e \<Rightarrow> (Inl e, s)
                         | Inr ok \<Rightarrow>
                             if \<not> ok then throwError t' this s else (Inr this, s))))))"

definition isUuid :: "externals \<Rightarrow> jsval \<Rightarrow> tip \<Rightarrow> nat \<Rightarrow> nat eff" where
  "isUuid x version t = addMethod (isUuid_fn x version t)"

section \<open>The middleware\<close>

text \<open>The accessors of \<open>opts\<close>, each from the context to an object of raw values, and
  their defaults.\<close>

record opts =
  getParams :: "session \<Rightarrow> (string \<rightharpoonup> jsval)"
  getQuery :: "session \<Rightarrow> (string \<rightharpoonup> jsval)"
  getBody :: "session \<Rightarrow> (string \<rightharpoonup> jsval)"

definition default_opts :: opts where
  "default_opts = \<lparr>getParams = params, getQuery = query, getBody = body\<rparr>"

text \<open>\<open>new Validator({key, val, type, ...})\<close>: a fresh object with the flag off, and
  \<open>this.vals[this.key] = props.val\<close>.\<close>

definition new_Validator :: "string \<Rightarrow> jsval \<Rightarrow> jsval \<Rightarrow> session \<Rightarrow> nat \<times> session" where
  "new_Validator k v ty s =
     (let r = next_ref s
      in (r, s\<lparr>vals := (vals s)(k \<mapsto> v),
               heap := (heap s)(r := \<lparr>key = k, isOptional_flag = False, type = ty\<rparr>),
               next_ref := Suc r\<rparr>))"

text \<open>What the generator of the middleware sets up before \<open>yield next\<close>: an empty store
  and an empty Map of validators.\<close>

definition middleware ::
  "(string \<rightharpoonup> jsval) \<Rightarrow> (string \<rightharpoonup> jsval) \<Rightarrow> (string \<rightharpoonup> jsval) \<Rightarrow> session" where
  "middleware p q b =
     \<lparr>params = p, query = q, body = b, vals = Map.empty,
      heap = (\<lambda>_. \<lparr>key = [], isOptional_flag = False, type = Undefined\<rparr>),
      next_ref = 0, validators = Map.empty\<rparr>"

text \<open>\<open>validators.get(key) || validators.set(key, new Validator(...)).get(key)\<close>\<close>

definition validateParam :: "opts \<Rightarrow> string \<Rightarrow> nat eff" where
  "validateParam opt k s =
     (case validators s k of
        Some r \<Rightarrow> (Inr r, s)
      | None \<Rightarrow>
          (case new_Validator k
                  (if get_prop (vals s) k = Undefined then get_prop (getParams opt s) k
                   else get_prop (vals s) k)
                  Undefined s of
             (r, s') \<Rightarrow> (Inr r, s'\<lparr>validators := (validators s')(k \<mapsto> r)\<rparr>)))"

definition validateQuery :: "opts \<Rightarrow> string \<Rightarrow> nat eff" where
  "validateQuery opt k s =
     (case validators s k of
        Some r \<Rightarrow> (Inr r, s)
      | None \<Rightarrow>
          (case new_Validator k
                  (if get_prop (vals s) k = Undefined then get_prop (getQuery opt s) k
                   else get_prop (vals s) k)
                  Undefined s of
             (r, s') \<Rightarrow> (Inr r, s'\<lparr>validators := (validators s')(k \<mapsto> r)\<rparr>)))"

definition validateBody :: "opts \<Rightarrow> string \<Rightarrow> nat eff" where
  "validateBody opt k s =
     (case validators s k of
        Some r \<Rightarrow> (Inr r, s)
      | None \<Rightarrow>
          (case new_Validator k
                  (if get_prop (vals s) k = Undefined then get_prop (getBody opt s) k
                   else get_prop (vals s) k)
                  (Str ''body'') s of
             (r, s') \<Rightarrow> (Inr r, s'\<lparr>validators := (validators s')(k \<mapsto> r)\<rparr>)))"

section \<open>One session over time\<close>

text \<open>
  The Map \<open>validators\<close> is local to the middleware's closure: a user function passed to
  \<open>defaultTo\<close> or \<open>tap\<close> reaches it only through \<open>validateParam\<close>, \<open>validateQuery\<close> and
  \<open>validateBody\<close>, which add entries and never change or remove one. A user function is
  modelled as any function on the session; \<open>keeps_cache\<close> says of it what holds of
  every function of the runtime.
\<close>

definition cache_kept :: "session \<Rightarrow> session \<Rightarrow> bool" where
  "cache_kept s s' \<longleftrightarrow> (\<forall>k r. validators s k = Some r \<longrightarrow> validators s' k = Some r)"

definition keeps_cache :: "(jsval list \<Rightarrow> jsval eff) \<Rightarrow> bool" where
  "keeps_cache f \<longleftrightarrow> (\<forall>args s. cache_kept s (snd (f args s)))"

text \<open>The chain operations of this theory, with any arguments.\<close>

inductive_set operations :: "(nat \<Rightarrow> nat eff) set" where
  "required t \<in> operations"
| "optional \<in> operations"
| "gt v t \<in> operations"
| "gte v t \<in> operations"
| "defaultTo (Value v) \<in> operations"
| "keeps_cache f \<Longrightarrow> defaultTo (Function f) \<in> operations"
| "isString t \<in> operations"
| "toInt x t \<in> operations"
| "toInts x t \<in> operations"
| "trim \<in> operations"
| "tap (Value v) \<in> operations"
| "keeps_cache f \<Longrightarrow> tap (Function f) \<in> operations"
| "isAlpha x t \<in> operations"
| "isAlphanumeric x t \<in> operations"
| "isNumeric x t \<in> operations"
| "isAscii x t \<in> operations"
| "isBase64 x t \<in> operations"
| "isEmail x t \<in> operations"
| "isHexColor x t \<in> operations"
| "isUuid x v t \<in> operations"

text \<open>
  The states a session goes through after \<open>s\<close>: a chain operation called on any
  Validator, a request for a Validator of any name from any source, and the handler's
  own write to \<open>ctx.vals\<close>.
\<close>

inductive later :: "opts \<Rightarrow> session \<Rightarrow> session \<Rightarrow> bool" for opt :: opts and s :: session where
  later_now: "later opt s s"
| later_call: "later opt s s1 \<Longrightarrow> m \<in> operations \<Longrightarrow> later opt s (snd (m this s1))"
| later_request:
    "later opt s s1 \<Longrightarrow> f \<in> {validateParam opt, validateQuery opt, validateBody opt} \<Longrightarrow>
       later opt s (snd (f k s1))"
| later_write: "later opt s s1 \<Longrightarrow> later opt s (s1\<lparr>vals := (vals s1)(k \<mapsto> v)\<rparr>)"

section \<open>Concrete runs\<close>

text \<open>
  An instance of the external functions, for the concrete runs below: \<open>isInt\<close> accepts
  the strings of the pattern \<open>^[-+]?(0|[1-9][0-9]*)$\<close>, the three format checkers reject
  everything (so they reject the empty string), and a number is printed as the runtime
  prints an integer below \<open>10^21\<close>, \<open>NaN\<close> and the infinities.
\<close>

definition int_pattern :: "string \<Rightarrow> bool" where
  "int_pattern str =
     (let r = (if str \<noteq> [] \<and> (hd str = CHR ''-'' \<or> hd str = CHR ''+'') then tl str else str)
      in r = ''0'' \<or> (r \<noteq> [] \<and> hd r \<noteq> CHR ''0'' \<and> list_all isDigit r))"

fun decimal :: "nat \<Rightarrow> string" where
  "decimal n =
     (if n < 10 then [char_of (48 + n)] else decimal (n div 10) @ [char_of (48 + n mod 10)])"

declare decimal.simps [simp del]

definition integer_toString :: "jsnum \<Rightarrow> string" where
  "integer_toString n =
     (case n of
        NaN \<Rightarrow> ''NaN''
      | PosInf \<Rightarrow> ''Infinity''
      | NegInf \<Rightarrow> ''-Infinity''
      | Finite q \<Rightarrow> (if q < 0 then ''-'' else []) @ decimal (nat \<lfloor>\<bar>q\<bar>\<rfloor>))"

definition example_externals :: externals where
  "example_externals =
     \<lparr>v_isInt = (\<lambda>args. case args of Str str # _ \<Rightarrow> int_pattern str | _ \<Rightarrow> False),
      v_isBase64 = (\<lambda>v. False),
      v_isEmail = (\<lambda>v. False),
      v_isHexColor = (\<lambda>v. False),
      Number_toString = integer_toString\<rparr>"

text \<open>The session of a request with body \<open>{x: v}\<close> once \<open>validateBody('x')\<close> has been
  called: its Validator has reference \<open>0\<close>.\<close>

definition session_x :: "jsval \<Rightarrow> session" where
  "session_x v =
     snd (validateBody default_opts ''x'' (middleware Map.empty Map.empty [''x'' \<mapsto> v]))"

section \<open>The optional state\<close>

lemmas run_defs = session_x_def validateBody_def default_opts_def middleware_def
  new_Validator_def get_prop_def val_def set_val_def set_isOptional_def optional_def chain_def
  addMethod_def optionalFn_def isOptional_def throwError_def or_else_def Let_def

lemmas ext_defs = example_externals_def int_pattern_def isDigit_def isWhiteSpace_def
  parseInt_def parseInt_string_def digits_value_def isSafeInteger_def MAX_SAFE_INTEGER_def
  MIN_SAFE_INTEGER_def every_def

lemma isOptional_skip:
  "isOptional_flag (heap s this) \<Longrightarrow> isUndefined (val this s) \<Longrightarrow> isOptional this s = (True, s)"
  by (simp add: isOptional_def)

lemma isOptional_rearm:
  "isOptional_flag (heap s this) \<Longrightarrow> \<not> isUndefined (val this s) \<Longrightarrow>
     isOptional this s = (False, set_isOptional this False s)"
  by (simp add: isOptional_def set_isOptional_def)

lemma isOptional_run:
  "\<not> (isOptional_flag (heap s this) \<and> isUndefined (val this s)) \<Longrightarrow>
     fst (isOptional this s) = False"
  by (auto simp add: isOptional_def set_isOptional_def)

lemma isOptional_snd [simp]:
  "vals (snd (isOptional this s)) = vals s"
  "validators (snd (isOptional this s)) = validators s"
  "key (heap (snd (isOptional this s)) r) = key (heap s r)"
  "val r (snd (isOptional this s)) = val r s"
  by (simp_all add: isOptional_def set_isOptional_def val_def Let_def)

lemma isOptional_idem:
  "fst (isOptional this s) = False \<Longrightarrow>
     isOptional this (snd (isOptional this s)) = (False, snd (isOptional this s))"
  by (auto simp add: isOptional_def set_isOptional_def Let_def split: if_splits)

text \<open>Outside the optional state a registered method is its function, run on the
  session as \<open>isOptional()\<close> left it.\<close>

lemma addMethod_run:
  "\<not> (isOptional_flag (heap s this) \<and> isUndefined (val this s)) \<Longrightarrow>
     addMethod fn this s = fn this (snd (isOptional this s))"
  using isOptional_run [of s this]
  by (cases "isOptional this s") (simp add: addMethod_def optionalFn_def)

text \<open>
  C1. For every Validator and every function \<open>fn\<close> registered with \<open>addMethod\<close>: called
  while the flag is set and the stored value is \<open>undefined\<close>, the method returns the
  Validator and leaves the whole session (store and flag) as it was; called while the
  flag is set and the stored value is present, the flag is cleared and \<open>fn\<close> runs.
\<close>

theorem addMethod_optional_contract:
  assumes "isOptional_flag (heap s this)"
  shows "(isUndefined (val this s) \<longrightarrow> addMethod fn this s = (Inr this, s)) \<and>
         (\<not> isUndefined (val this s) \<longrightarrow>
            \<not> isOptional_flag (heap (set_isOptional this False s) this) \<and>
            addMethod fn this s = fn this (set_isOptional this False s))"
  using assms
  by (simp add: addMethod_def optionalFn_def isOptional_skip isOptional_rearm set_isOptional_def)

text \<open>On the session with \<open>x\<close> absent after \<open>.optional()\<close>, \<open>gt(0)\<close> is skipped; once the
  store holds \<open>5\<close> the flag is cleared and \<open>gt(0)\<close> runs (and passes).\<close>

theorem addMethod_optional_contract_witness:
  "isOptional_flag (heap (snd (optional 0 (session_x Undefined))) 0) \<and>
   isUndefined (val 0 (snd (optional 0 (session_x Undefined)))) \<and>
   addMethod (gt_fn (Num (Finite 0)) (Tip Undefined)) 0 (snd (optional 0 (session_x Undefined)))
     = (Inr 0, snd (optional 0 (session_x Undefined))) \<and>
   isOptional_flag (heap (set_val 0 (Num (Finite 5)) (snd (optional 0 (session_x Undefined)))) 0) \<and>
   \<not> isUndefined (val 0 (set_val 0 (Num (Finite 5)) (snd (optional 0 (session_x Undefined))))) \<and>
   addMethod (gt_fn (Num (Finite 0)) (Tip Undefined)) 0
       (set_val 0 (Num (Finite 5)) (snd (optional 0 (session_x Undefined))))
     = (Inr 0, set_isOptional 0 False
                 (set_val 0 (Num (Finite 5)) (snd (optional 0 (session_x Undefined)))))"
  using addMethod_optional_contract
          [of "snd (optional 0 (session_x Undefined))" 0 "gt_fn (Num (Finite 0)) (Tip Undefined)"]
        addMethod_optional_contract
          [of "set_val 0 (Num (Finite 5)) (snd (optional 0 (session_x Undefined)))" 0
              "gt_fn (Num (Finite 0)) (Tip Undefined)"]
  by (simp add: run_defs gt_fn_def)

text \<open>After \<open>.optional()\<close> on an absent value, \<open>.defaultTo(5)\<close> has not stored \<open>5\<close>:
  \<open>defaultTo\<close> is itself registered with \<open>addMethod\<close>, and is skipped.\<close>

theorem optional_defaultTo_gt_counterexample:
  "val 0 (snd (chain (optional 0) (defaultTo (Value (Num (Finite 5)))) (session_x Undefined)))
     = Undefined \<and>
   val 0 (snd (chain (optional 0) (defaultTo (Value (Num (Finite 5)))) (session_x Undefined)))
     \<noteq> Num (Finite 5)"
  by (simp add: run_defs defaultTo_def)

text \<open>
  C2, as the code has it. For a Validator whose stored value is absent, in the chain
  \<open>.optional().defaultTo(d).gt(otherValue, tip)\<close> the call of \<open>optional\<close> sets the flag,
  \<open>defaultTo\<close> and \<open>gt\<close> are both skipped, the stored value stays absent, and the whole
  chain returns the Validator without throwing.
\<close>

theorem optional_defaultTo_gt_skipped:
  assumes "isUndefined (val this s)"
  shows "chain (optional this) (defaultTo d) s = (Inr this, set_isOptional this True s) \<and>
         chain (chain (optional this) (defaultTo d)) (gt otherValue t) s
           = (Inr this, set_isOptional this True s) \<and>
         vals (set_isOptional this True s) = vals s \<and>
         val this (set_isOptional this True s) = Undefined"
proof -
  let ?s = "set_isOptional this True s"
  have flag: "isOptional_flag (heap ?s this)"
    by (simp add: set_isOptional_def)
  have undef: "isUndefined (val this ?s)"
    using assms by (simp add: val_def set_isOptional_def)
  have skip: "\<And>fn. addMethod fn this ?s = (Inr this, ?s)"
    by (simp add: addMethod_def optionalFn_def isOptional_skip [OF flag undef])
  have opt: "optional this s = (Inr this, ?s)"
    using assms by (simp add: optional_def)
  have v: "val this ?s = Undefined"
    using undef by (cases "val this ?s") simp_all
  have st: "vals ?s = vals s"
    by (simp add: set_isOptional_def)
  show ?thesis
    by (simp add: chain_def opt defaultTo_def gt_def skip v st)
qed

theorem optional_defaultTo_gt_skipped_witness:
  "isUndefined (val 0 (session_x Undefined)) \<and>
   chain (chain (optional 0) (defaultTo (Value (Num (Finite 5)))))
       (gt (Num (Finite 0)) (Tip Undefined)) (session_x Undefined)
     = (Inr 0, set_isOptional 0 True (session_x Undefined)) \<and>
   val 0 (set_isOptional 0 True (session_x Undefined)) = Undefined"
  using optional_defaultTo_gt_skipped
          [of 0 "session_x Undefined" "Value (Num (Finite 5))" "Num (Finite 0)" "Tip Undefined"]
  by (simp add: run_defs defaultTo_def gt_def)

text \<open>Without \<open>.optional()\<close>, \<open>.defaultTo(5).gt(0)\<close> on an absent value stores \<open>5\<close> and
  passes.\<close>

lemma defaultTo_gt_on_absent:
  "chain (defaultTo (Value (Num (Finite 5))) 0) (gt (Num (Finite 0)) (Tip Undefined))
       (session_x Undefined)
     = (Inr 0, set_val 0 (Num (Finite 5)) (session_x Undefined))"
  by (simp add: run_defs defaultTo_def defaultTo_fn_def gt_def gt_fn_def)

section \<open>The cache of validators\<close>

lemma cache_kept_refl: "cache_kept s s"
  by (simp add: cache_kept_def)

lemma cache_kept_trans: "cache_kept s s1 \<Longrightarrow> cache_kept s1 s2 \<Longrightarrow> cache_kept s s2"
  by (simp add: cache_kept_def)

lemma cache_kept_same: "validators s' = validators s \<Longrightarrow> cache_kept s s'"
  by (simp add: cache_kept_def)

lemma validators_unchanged [simp]:
  "validators (snd (throwError t this s)) = validators s"
  "validators (set_val this v s) = validators s"
  "validators (set_isOptional this b s) = validators s"
  by (simp_all add: throwError_def set_val_def set_isOptional_def Let_def)

text \<open>A registered method keeps the cache when its function does; so does a chain of
  two calls.\<close>

lemma addMethod_cache:
  assumes "\<And>s'. cache_kept s' (snd (fn this s'))"
  shows "cache_kept s (snd (addMethod fn this s))"
proof (cases "fst (isOptional this s)")
  case True
  then show ?thesis
    by (cases "isOptional this s")
       (simp add: addMethod_def optionalFn_def cache_kept_def
          isOptional_snd(2) [of this s, symmetric])
next
  case False
  have "cache_kept s (snd (isOptional this s))"
    by (rule cache_kept_same) simp
  then have "cache_kept s (snd (fn this (snd (isOptional this s))))"
    using assms [of "snd (isOptional this s)"] by (rule cache_kept_trans)
  with False show ?thesis
    by (cases "isOptional this s") (simp add: addMethod_def optionalFn_def)
qed

lemma chain_cache:
  assumes "\<And>s'. cache_kept s' (snd (m s'))"
      and "\<And>a s'. cache_kept s' (snd (f a s'))"
  shows "cache_kept s (snd (chain m f s))"
proof (cases "m s")
  case (Pair r s1)
  have 1: "cache_kept s s1"
    using assms(1) [of s] Pair by simp
  show ?thesis
  proof (cases r)
    case (Inl e)
    with Pair 1 show ?thesis by (simp add: chain_def)
  next
    case (Inr a)
    with Pair have "chain m f s = f a s1" by (simp add: chain_def)
    with 1 assms(2) [of s1 a] show ?thesis by (simp add: cache_kept_trans)
  qed
qed

lemma isString_cache: "cache_kept s (snd (isString t this s))"
  unfolding isString_def
  by (rule addMethod_cache) (simp add: isString_fn_def cache_kept_def)

lemma user_function_cache:
  "keeps_cache f \<Longrightarrow> f args s = (r, s1) \<Longrightarrow> cache_kept s s1"
  unfolding keeps_cache_def by (metis snd_conv)

lemma operations_cache:
  assumes "m \<in> operations"
  shows "cache_kept s (snd (m this s))"
  using assms
proof cases
  case (1 t)
  then show ?thesis
    by (simp add: required_def cache_kept_def)
next
  case 2
  then show ?thesis
    by (simp add: optional_def cache_kept_def)
next
  case (3 v t)
  show ?thesis
    unfolding 3 gt_def
    by (rule addMethod_cache)
       (simp add: gt_fn_def cache_kept_def split: jsval.splits)
next
  case (4 v t)
  show ?thesis
    unfolding 4 gte_def
    by (rule addMethod_cache)
       (simp add: gte_fn_def cache_kept_def split: jsval.splits)
next
  case (5 v)
  show ?thesis
    unfolding 5 defaultTo_def
    by (rule addMethod_cache) (simp add: defaultTo_fn_def cache_kept_def)
next
  case (6 f)
  show ?thesis
    unfolding 6(1) defaultTo_def
  proof (rule addMethod_cache)
    fix s'
    obtain r s1 where f: "f [] s' = (r, s1)" by (cases "f [] s'")
    with 6(2) have "cache_kept s' s1" by (rule user_function_cache)
    then show "cache_kept s' (snd (defaultTo_fn (Function f) this s'))"
      using f
      by (cases r) (simp_all add: defaultTo_fn_def cache_kept_def)
  qed
next
  case (7 t)
  show ?thesis unfolding 7 by (rule isString_cache)
next
  case (8 x t)
  show ?thesis
    unfolding 8 toInt_def
    by (rule addMethod_cache)
       (simp add: toInt_fn_def cache_kept_def split: sum.splits)
next
  case (9 x t)
  show ?thesis
    unfolding 9 toInts_def
    by (rule addMethod_cache)
       (simp add: toInts_fn_def cache_kept_def
          split: sum.splits jsval.splits)
next
  case 10
  show ?thesis
    unfolding 10 trim_def
    by (rule addMethod_cache) (simp add: trim_fn_def cache_kept_def split: jsval.splits)
next
  case (11 v)
  show ?thesis
    unfolding 11 tap_def
    by (rule addMethod_cache) (simp add: tap_fn_def cache_kept_refl)
next
  case (12 f)
  show ?thesis
    unfolding 12(1) tap_def
  proof (rule addMethod_cache)
    fix s'
    obtain r s1 where f: "f [val this s'] s' = (r, s1)" by (cases "f [val this s'] s'")
    with 12(2) have k: "cache_kept s' s1" by (rule user_function_cache)
    show "cache_kept s' (snd (tap_fn (Function f) this s'))"
      using f k
      by (cases r) (simp_all add: tap_fn_def cache_kept_def split: fault.splits)
  qed
next
  case (13 x t)
  show ?thesis
    unfolding 13 isAlpha_def
    by (rule addMethod_cache)
       (simp add: isAlpha_fn_def Let_def, rule chain_cache, rule isString_cache,
        simp add: cache_kept_def split: sum.splits)
next
  case (14 x t)
  show ?thesis
    unfolding 14 isAlphanumeric_def
    by (rule addMethod_cache)
       (simp add: isAlphanumeric_fn_def Let_def, rule chain_cache, rule isString_cache,
        simp add: cache_kept_def split: sum.splits)
next
  case (15 x t)
  show ?thesis
    unfolding 15 isNumeric_def
    by (rule addMethod_cache)
       (simp add: isNumeric_fn_def Let_def, rule chain_cache, rule isString_cache,
        simp add: cache_kept_def split: sum.splits)
next
  case (16 x t)
  show ?thesis
    unfolding 16 isAscii_def
    by (rule addMethod_cache)
       (simp add: isAscii_fn_def Let_def cache_kept_def split: sum.splits)
next
  case (17 x t)
  show ?thesis
    unfolding 17 isBase64_def
    by (rule addMethod_cache)
       (simp add: isBase64_fn_def Let_def, rule chain_cache, rule isString_cache,
        simp add: cache_kept_def split: sum.splits)
next
  case (18 x t)
  show ?thesis
    unfolding 18 isEmail_def
    by (rule addMethod_cache)
       (simp add: isEmail_fn_def Let_def, rule chain_cache, rule isString_cache,
        simp add: cache_kept_def)
next
  case (19 x t)
  show ?thesis
    unfolding 19 isHexColor_def
    by (rule addMethod_cache)
       (simp add: isHexColor_fn_def Let_def, rule chain_cache, rule isString_cache,
        simp add: cache_kept_def)
next
  case (20 x v t)
  show ?thesis
    unfolding 20 isUuid_def
    by (rule addMethod_cache)
       (simp add: isUuid_fn_def Let_def cache_kept_def
          split: sum.splits option.splits)
qed

text \<open>A request adds an entry for a name the cache does not hold, or changes nothing.\<close>

lemma request_cache:
  assumes "f \<in> {validateParam opt, validateQuery opt, validateBody opt}"
  shows "cache_kept s (snd (f k s))"
  using assms
  by (auto simp add: validateParam_def validateQuery_def validateBody_def new_Validator_def
        Let_def cache_kept_def split: option.splits)

text \<open>So whatever the session does later, the cache keeps every entry it holds.\<close>

lemma later_cache: "later opt s s2 \<Longrightarrow> cache_kept s s2"
proof (induction rule: later.induct)
  case later_now
  show ?case by (rule cache_kept_refl)
next
  case (later_call s1 m this)
  from later_call.IH operations_cache [OF later_call.hyps(2)] show ?case
    by (rule cache_kept_trans)
next
  case (later_request s1 f k)
  from later_request.IH request_cache [OF later_request.hyps(2)] show ?case
    by (rule cache_kept_trans)
next
  case (later_write s1 k v)
  then show ?case by (simp add: cache_kept_def)
qed

text \<open>
  C3. Within one session, let \<open>first\<close> and \<open>again\<close> each be any of \<open>validateParam\<close>,
  \<open>validateQuery\<close>, \<open>validateBody\<close>. The first request for a name returns the cached
  Validator when there is one; otherwise it constructs a Validator for the name (fresh
  reference, flag off), seeds the store entry from the store when it holds a value and
  from the source of that first request when it does not, and caches the Validator
  under the name. A request for the name in any later state of the session (after any
  chain operations, requests and writes to the store) returns that same reference and
  leaves the session, its store included, untouched, whichever source it asks.
\<close>

theorem validate_cached:
  assumes "(first, src, ty) \<in> {(validateParam opt, getParams opt, Undefined),
                                (validateQuery opt, getQuery opt, Undefined),
                                (validateBody opt, getBody opt, Str ''body'')}"
      and "again \<in> {validateParam opt, validateQuery opt, validateBody opt}"
      and "later opt (snd (first k s)) s2"
  shows "(case validators s k of
            Some ref \<Rightarrow> first k s = (Inr ref, s)
          | None \<Rightarrow>
              first k s
                = (Inr (next_ref s),
                   s\<lparr>vals := (vals s)(k \<mapsto>
                          (if get_prop (vals s) k = Undefined then get_prop (src s) k
                           else get_prop (vals s) k)),
                      heap := (heap s)(next_ref s :=
                          \<lparr>key = k, isOptional_flag = False, type = ty\<rparr>),
                      next_ref := Suc (next_ref s),
                      validators := (validators s)(k \<mapsto> next_ref s)\<rparr>)) \<and>
         (\<exists>ref. fst (first k s) = Inr ref \<and> validators s2 k = Some ref) \<and>
         again k s2 = (fst (first k s), s2)"
proof -
  have first: "case validators s k of
            Some ref \<Rightarrow> first k s = (Inr ref, s)
          | None \<Rightarrow>
              first k s
                = (Inr (next_ref s),
                   s\<lparr>vals := (vals s)(k \<mapsto>
                          (if get_prop (vals s) k = Undefined then get_prop (src s) k
                           else get_prop (vals s) k)),
                      heap := (heap s)(next_ref s :=
                          \<lparr>key = k, isOptional_flag = False, type = ty\<rparr>),
                      next_ref := Suc (next_ref s),
                      validators := (validators s)(k \<mapsto> next_ref s)\<rparr>)"
    using assms(1)
    by (auto simp add: validateParam_def validateQuery_def validateBody_def new_Validator_def
          Let_def split: option.splits)
  then obtain ref where r: "fst (first k s) = Inr ref"
      and c: "validators (snd (first k s)) k = Some ref"
    by (cases "validators s k") auto
  have "cache_kept (snd (first k s)) s2"
    using assms(3) by (rule later_cache)
  with c have c2: "validators s2 k = Some ref"
    by (simp add: cache_kept_def)
  have "again k s2 = (Inr ref, s2)"
    using assms(2) c2
    by (auto simp add: validateParam_def validateQuery_def validateBody_def)
  with first r c2 show ?thesis by simp
qed

text \<open>\<open>validateBody('x')\<close> on the body \<open>{x: ' a '}\<close> constructs the Validator \<open>0\<close> and seeds
  the store from the body; after \<open>.trim()\<close>, \<open>validateQuery('x')\<close> returns the same
  Validator, and the trimmed value is still in the store.\<close>

theorem validate_cached_witness:
  "(validateBody default_opts, getBody default_opts, Str ''body'')
     \<in> {(validateParam default_opts, getParams default_opts, Undefined),
        (validateQuery default_opts, getQuery default_opts, Undefined),
        (validateBody default_opts, getBody default_opts, Str ''body'')} \<and>
   validateQuery default_opts
     \<in> {validateParam default_opts, validateQuery default_opts, validateBody default_opts} \<and>
   later default_opts
     (snd (validateBody default_opts ''x''
             (middleware Map.empty Map.empty [''x'' \<mapsto> Str '' a ''])))
     (snd (trim 0 (session_x (Str '' a '')))) \<and>
   validators (middleware Map.empty Map.empty [''x'' \<mapsto> Str '' a '']) ''x'' = None \<and>
   validateBody default_opts ''x'' (middleware Map.empty Map.empty [''x'' \<mapsto> Str '' a ''])
     = (Inr 0, session_x (Str '' a '')) \<and>
   val 0 (session_x (Str '' a '')) = Str '' a '' \<and>
   key (heap (session_x (Str '' a '')) 0) = ''x'' \<and>
   validateQuery default_opts ''x'' (snd (trim 0 (session_x (Str '' a ''))))
     = (Inr 0, snd (trim 0 (session_x (Str '' a '')))) \<and>
   val 0 (snd (trim 0 (session_x (Str '' a '')))) = Str ''a''"
proof -
  have l: "later default_opts
     (snd (validateBody default_opts ''x''
             (middleware Map.empty Map.empty [''x'' \<mapsto> Str '' a ''])))
     (snd (trim 0 (session_x (Str '' a ''))))"
    unfolding session_x_def
    by (rule later_call [OF later_now]) (rule operations.intros)
  have m: "validateQuery default_opts
     \<in> {validateParam default_opts, validateQuery default_opts, validateBody default_opts}"
    by simp
  have f: "(validateBody default_opts, getBody default_opts, Str ''body'')
     \<in> {(validateParam default_opts, getParams default_opts, Undefined),
        (validateQuery default_opts, getQuery default_opts, Undefined),
        (validateBody default_opts, getBody default_opts, Str ''body'')}"
    by simp
  show ?thesis
    using validate_cached [OF f m l] l
    by (simp add: run_defs trim_def trim_fn_def trim_string_def isWhiteSpace_def
          validateQuery_def)
qed

section \<open>Conversions\<close>

text \<open>\<open>_.every\<close> element by element.\<close>

lemma every_iff:
  "every vs p \<longleftrightarrow> (\<forall>i < length vs. p [vs ! i, Num (Finite (of_nat i)), Arr vs])"
  by (auto simp add: every_def list_all_iff in_set_enumerate_eq)

text \<open>Parsing every element gives a number for each, in order, unless the conversion
  of some element to a string throws; it never throws on strings.\<close>

lemma array_map_length: "array_map f vs = Inr ys \<Longrightarrow> length ys = length vs"
  by (induction vs arbitrary: ys) (auto split: sum.splits)

lemma array_map_parseInt_strings:
  "list_all isString_val vs \<Longrightarrow> \<exists>nums. array_map (parseInt x) vs = Inr nums"
proof (induction vs)
  case Nil
  show ?case by simp
next
  case (Cons v vs)
  then obtain nums where "array_map (parseInt x) vs = Inr nums" by auto
  moreover from Cons.prems obtain str where "v = Str str" by (cases v) simp_all
  then have "parseInt x v = Inr (parseInt_string str)" by (simp add: parseInt_def)
  ultimately show ?case by simp
qed

text \<open>
  C4. \<open>toInts\<close> is all-or-nothing. For every array in the store: if every element
  passes \<open>v.isInt\<close> and every element parses to a number within the safe-integer range,
  the store entry becomes the array of the parsed integers; if some element fails
  \<open>v.isInt\<close>, or some parsed element is outside the safe-integer range, \<open>toInts\<close>
  throws a ValidationError for the Validator's key and the store is left as it was.
  (In the one remaining case, an element \<open>v.isInt\<close> accepted whose conversion to a
  string throws, \<open>toInts\<close> throws that fault, and the store is left as it was as well.)
\<close>

theorem toInts_all_or_nothing:
  assumes "val this s = Arr vs"
  shows "(\<forall>nums. every vs (v_isInt x) \<and> array_map (parseInt x) vs = Inr nums \<and>
                 list_all isSafeInteger nums \<longrightarrow>
            toInts x t this s
              = (Inr this, set_val this (Arr (map Num nums)) (snd (isOptional this s))) \<and>
            val this (snd (toInts x t this s)) = Arr (map Num nums)) \<and>
         (\<not> every vs (v_isInt x) \<or>
          (\<exists>nums. array_map (parseInt x) vs = Inr nums \<and> \<not> list_all isSafeInteger nums) \<longrightarrow>
            (\<exists>m. fst (toInts x t this s) = Inl (ValidationError (Some (key (heap s this))) m)) \<and>
            vals (snd (toInts x t this s)) = vals s \<and>
            val this (snd (toInts x t this s)) = Arr vs) \<and>
         (\<forall>e. every vs (v_isInt x) \<and> array_map (parseInt x) vs = Inl e \<longrightarrow>
            toInts x t this s = (Inl e, snd (isOptional this s)) \<and>
            vals (snd (toInts x t this s)) = vals s \<and>
            val this (snd (toInts x t this s)) = Arr vs)"
proof -
  let ?s = "snd (isOptional this s)"
  have run: "toInts x t this s = toInts_fn x t this ?s"
    unfolding toInts_def using assms by (simp add: addMethod_run)
  have v: "val this ?s = Arr vs"
    using assms by simp
  have k: "val this (set_val this w ?s) = w" for w
    by (simp add: val_def set_val_def get_prop_def)
  show ?thesis
    unfolding run
    by (auto simp add: toInts_fn_def v k assms throwError_def Let_def split: sum.splits)
qed

text \<open>\<open>["1","x","3"]\<close> throws and stays; \<open>["1","2","3"]\<close> becomes \<open>[1,2,3]\<close>; with a
  checker that accepts everything, \<open>["1", {toString: 'abc'}]\<close> throws the TypeError of
  the conversion and stays.\<close>

theorem toInts_all_or_nothing_witness:
  "val 0 (session_x (Arr [Str ''1'', Str ''x'', Str ''3''])) = Arr [Str ''1'', Str ''x'', Str ''3''] \<and>
   \<not> every [Str ''1'', Str ''x'', Str ''3''] (v_isInt example_externals) \<and>
   fst (toInts example_externals (Tip Undefined) 0 (session_x (Arr [Str ''1'', Str ''x'', Str ''3''])))
     = Inl (ValidationError (Some ''x'') (Tip (Str ''x must be an array of integers''))) \<and>
   val 0 (snd (toInts example_externals (Tip Undefined) 0
                 (session_x (Arr [Str ''1'', Str ''x'', Str ''3'']))))
     = Arr [Str ''1'', Str ''x'', Str ''3''] \<and>
   val 0 (session_x (Arr [Str ''1'', Str ''2'', Str ''3''])) = Arr [Str ''1'', Str ''2'', Str ''3''] \<and>
   every [Str ''1'', Str ''2'', Str ''3''] (v_isInt example_externals) \<and>
   array_map (parseInt example_externals) [Str ''1'', Str ''2'', Str ''3'']
     = Inr [Finite 1, Finite 2, Finite 3] \<and>
   list_all isSafeInteger [Finite 1, Finite 2, Finite 3] \<and>
   val 0 (snd (toInts example_externals (Tip Undefined) 0
                 (session_x (Arr [Str ''1'', Str ''2'', Str ''3'']))))
     = Arr [Num (Finite 1), Num (Finite 2), Num (Finite 3)] \<and>
   every [Str ''1'', Obj [(''toString'', Str ''abc'')]]
     (v_isInt (example_externals\<lparr>v_isInt := \<lambda>args. True\<rparr>)) \<and>
   array_map (parseInt (example_externals\<lparr>v_isInt := \<lambda>args. True\<rparr>))
       [Str ''1'', Obj [(''toString'', Str ''abc'')]]
     = Inl TypeError \<and>
   toInts (example_externals\<lparr>v_isInt := \<lambda>args. True\<rparr>) (Tip Undefined) 0
       (session_x (Arr [Str ''1'', Obj [(''toString'', Str ''abc'')]]))
     = (Inl TypeError, session_x (Arr [Str ''1'', Obj [(''toString'', Str ''abc'')]]))"
  using toInts_all_or_nothing
          [of 0 "session_x (Arr [Str ''1'', Str ''x'', Str ''3''])" "[Str ''1'', Str ''x'', Str ''3'']"
              example_externals "Tip Undefined"]
        toInts_all_or_nothing
          [of 0 "session_x (Arr [Str ''1'', Str ''2'', Str ''3''])" "[Str ''1'', Str ''2'', Str ''3'']"
              example_externals "Tip Undefined"]
        toInts_all_or_nothing
          [of 0 "session_x (Arr [Str ''1'', Obj [(''toString'', Str ''abc'')]])"
              "[Str ''1'', Obj [(''toString'', Str ''abc'')]]"
              "example_externals\<lparr>v_isInt := \<lambda>args. True\<rparr>" "Tip Undefined"]
  by (simp add: run_defs ext_defs toInts_def toInts_fn_def)

text \<open>An element beyond the safe range: the whole conversion is refused.\<close>

lemma toInts_out_of_range:
  "fst (toInts example_externals (Tip Undefined) 0
          (session_x (Arr [Str ''1'', Str ''9007199254740992''])))
     = Inl (ValidationError (Some ''x'')
              (Tip (Str ''x must not contain numbers out of integer range''))) \<and>
   val 0 (snd (toInts example_externals (Tip Undefined) 0
                 (session_x (Arr [Str ''1'', Str ''9007199254740992'']))))
     = Arr [Str ''1'', Str ''9007199254740992'']"
  by (simp add: run_defs ext_defs toInts_def toInts_fn_def)

text \<open>
  C5. Outside the optional state, with \<open>g\<close> the function passed to \<open>tap\<close> and \<open>(r, s1)\<close>
  what its call on the current value gives: if \<open>g\<close> throws a ValidationError, \<open>tap\<close>
  throws a ValidationError of this Validator's key with the default message
  \<open>'Invalid value for ' + key\<close>, whatever the inner key and message were; if \<open>g\<close> throws
  any other fault, \<open>tap\<close> throws that same fault; if \<open>g\<close> returns \<open>v\<close>, the store entry
  becomes \<open>v\<close>.
\<close>

theorem tap_contract:
  assumes "\<not> (isOptional_flag (heap s this) \<and> isUndefined (val this s))"
      and "g [val this s] (snd (isOptional this s)) = (r, s1)"
  shows "(\<forall>k m. r = Inl (ValidationError k m) \<longrightarrow>
            tap (Function g) this s
              = (Inl (ValidationError (Some (key (heap s1 this)))
                        (Tip (Str (''Invalid value for '' @ key (heap s1 this))))), s1)) \<and>
         (\<forall>e. r = Inl e \<and> (\<forall>k m. e \<noteq> ValidationError k m) \<longrightarrow>
            tap (Function g) this s = (Inl e, s1)) \<and>
         (\<forall>v. r = Inr v \<longrightarrow>
            tap (Function g) this s = (Inr this, set_val this v s1) \<and>
            val this (set_val this v s1) = v)"
proof -
  have run: "tap (Function g) this s = tap_fn (Function g) this (snd (isOptional this s))"
    unfolding tap_def using assms(1) by (rule addMethod_run)
  show ?thesis
    unfolding run using assms(2)
    by (auto simp add: tap_fn_def throwError_def or_else_def set_val_def val_def get_prop_def
          Let_def split: fault.splits)
qed

theorem tap_contract_witness:
  "\<not> (isOptional_flag (heap (session_x (Str ''v'')) 0) \<and>
      isUndefined (val 0 (session_x (Str ''v'')))) \<and>
   tap (Function (\<lambda>args s. (Inl (ValidationError None (Tip (Str ''inner''))), s))) 0
       (session_x (Str ''v''))
     = (Inl (ValidationError (Some ''x'') (Tip (Str ''Invalid value for x''))),
        session_x (Str ''v'')) \<and>
   tap (Function (\<lambda>args s. (Inl (UserFault 7), s))) 0 (session_x (Str ''v''))
     = (Inl (UserFault 7), session_x (Str ''v'')) \<and>
   tap (Function (\<lambda>args s. (Inr (Arr args), s))) 0 (session_x (Str ''v''))
     = (Inr 0, set_val 0 (Arr [Str ''v'']) (session_x (Str ''v'')))"
  using tap_contract
          [of "session_x (Str ''v'')" 0
              "\<lambda>args s. (Inl (ValidationError None (Tip (Str ''inner''))), s)"
              "Inl (ValidationError None (Tip (Str ''inner'')))" "session_x (Str ''v'')"]
        tap_contract
          [of "session_x (Str ''v'')" 0 "\<lambda>args s. (Inl (UserFault 7), s)"
              "Inl (UserFault 7)" "session_x (Str ''v'')"]
        tap_contract
          [of "session_x (Str ''v'')" 0 "\<lambda>args s. (Inr (Arr args), s)"
              "Inr (Arr [Str ''v''])" "session_x (Str ''v'')"]
  by (simp add: run_defs tap_def tap_fn_def)

text \<open>
  C6. On the fresh session of a request whose body is \<open>{age: "17"}\<close> (and \<open>v.isInt\<close>
  accepting \<open>"17"\<close>), the chain \<open>validateBody('age').required().toInt().gte(18)\<close> throws
  a ValidationError of key \<open>age\<close>, and the session it leaves is the one \<open>toInt\<close> left:
  the store entry of \<open>age\<close> is the number \<open>17\<close>.
\<close>

theorem age_chain_raises_after_toInt:
  assumes "v_isInt x [Str ''17'']"
  shows "chain (chain (chain (validateBody default_opts ''age'') (required (Tip Undefined)))
                  (toInt x (Tip Undefined)))
           (gte (Num (Finite 18)) (Tip Undefined))
           (middleware p q [''age'' \<mapsto> Str ''17''])
         = (Inl (ValidationError (Some ''age'') (Tip (Str ''Invalid age''))),
            snd (chain (chain (validateBody default_opts ''age'') (required (Tip Undefined)))
                   (toInt x (Tip Undefined)) (middleware p q [''age'' \<mapsto> Str ''17'']))) \<and>
         vals (snd (chain (chain (validateBody default_opts ''age'') (required (Tip Undefined)))
                      (toInt x (Tip Undefined)) (middleware p q [''age'' \<mapsto> Str ''17''])))
              ''age''
           = Some (Num (Finite 17))"
  using assms
  by (simp add: run_defs ext_defs required_def toInt_def toInt_fn_def gte_def gte_fn_def)

theorem age_chain_raises_after_toInt_witness:
  "v_isInt example_externals [Str ''17''] \<and>
   fst (chain (chain (chain (validateBody default_opts ''age'') (required (Tip Undefined)))
                  (toInt example_externals (Tip Undefined)))
           (gte (Num (Finite 18)) (Tip Undefined))
           (middleware Map.empty Map.empty [''age'' \<mapsto> Str ''17'']))
     = Inl (ValidationError (Some ''age'') (Tip (Str ''Invalid age''))) \<and>
   vals (snd (chain (chain (chain (validateBody default_opts ''age'') (required (Tip Undefined)))
                  (toInt example_externals (Tip Undefined)))
           (gte (Num (Finite 18)) (Tip Undefined))
           (middleware Map.empty Map.empty [''age'' \<mapsto> Str ''17'']))) ''age''
     = Some (Num (Finite 17))"
  using age_chain_raises_after_toInt [of example_externals Map.empty Map.empty]
  by (simp add: run_defs ext_defs required_def toInt_def toInt_fn_def)

section \<open>Format validators\<close>



lemma re_uuid_simps:
  "re_uuid ''v3'' = Some uuid_v3"
  "re_uuid ''v4'' = Some uuid_v4"
  "re_uuid ''v5'' = Some uuid_v5"
  "re_uuid ''all'' = Some uuid_all"
  by (simp_all add: re_uuid_def)


lemma uuid_examples:
  "matches uuid_all ''550e8400-e29b-41d4-a716-446655440000''"
  "matches uuid_v4 ''550e8400-e29b-41d4-a716-446655440000''"
  "\<not> matches uuid_v3 ''550e8400-e29b-41d4-a716-446655440000''"
  "\<not> matches uuid_v5 ''550e8400-e29b-41d4-a716-446655440000''"
  by code_simp+




text \<open>The siblings call \<open>this.isString(...)\<close> first: on a value that is not a string
  each of them throws a ValidationError.\<close>

lemma isString_rejects:
  assumes "\<not> isString_val (val this s)"
      and "\<not> (isOptional_flag (heap s this) \<and> isUndefined (val this s))"
  shows "\<exists>m. isString t' this (snd (isOptional this s))
           = (Inl (ValidationError (Some (key (heap s this))) m), snd (isOptional this s))"
proof -
  have off: "fst (isOptional this s) = False"
    using assms(2) by (rule isOptional_run)
  show ?thesis
    using assms(1)
    by (simp add: isString_def addMethod_def optionalFn_def isOptional_idem [OF off]
          isString_fn_def throwError_def Let_def)
qed

lemma format_validators_require_string:
  assumes "\<not> isString_val (val this s)"
      and "\<not> (isOptional_flag (heap s this) \<and> isUndefined (val this s))"
      and "f \<in> {isAlpha, isAlphanumeric, isNumeric, isBase64, isEmail, isHexColor}"
  shows "\<exists>m. f x t this s
           = (Inl (ValidationError (Some (key (heap s this))) m), snd (isOptional this s))"
proof -
  have str: "\<And>t'. \<exists>m. isString t' this (snd (isOptional this s))
           = (Inl (ValidationError (Some (key (heap s this))) m), snd (isOptional this s))"
    using assms(1,2) by (rule isString_rejects)
  have run: "\<And>fn. addMethod fn this s = fn this (snd (isOptional this s))"
    using assms(2) by (rule addMethod_run)
  have "\<And>t' (k :: nat \<Rightarrow> nat eff). \<exists>m. chain (isString t' this) k (snd (isOptional this s))
           = (Inl (ValidationError (Some (key (heap s this))) m), snd (isOptional this s))"
  proof -
    fix t' :: tip and k :: "nat \<Rightarrow> nat eff"
    from str [of t'] obtain m where
      "isString t' this (snd (isOptional this s))
         = (Inl (ValidationError (Some (key (heap s this))) m), snd (isOptional this s))" ..
    then show "\<exists>m. chain (isString t' this) k (snd (isOptional this s))
           = (Inl (ValidationError (Some (key (heap s this))) m), snd (isOptional this s))"
      by (simp add: chain_def)
  qed
  then show ?thesis
    using assms(3)
    by (auto simp add: run isAlpha_def isAlpha_fn_def isAlphanumeric_def isAlphanumeric_fn_def
          isNumeric_def isNumeric_fn_def isBase64_def isBase64_fn_def isEmail_def isEmail_fn_def
          isHexColor_def isHexColor_fn_def Let_def)
qed

text \<open>
  C8. \<open>isAscii\<close> does not require a string: on the boolean \<open>true\<close>, which is not a
  string, it tests the text \<open>"true"\<close> and returns the Validator without throwing,
  whatever the tip and the external functions.
\<close>

theorem isAscii_accepts_non_string:
  "\<not> isString_val (val 0 (session_x (Bool True))) \<and>
   isAscii x t 0 (session_x (Bool True)) = (Inr 0, session_x (Bool True))"
  by (simp add: run_defs isAscii_def isAscii_fn_def test_def re_ascii_def)

text \<open>So does it on the number \<open>5\<close>; and \<open>isUuid\<close>, which has no \<open>isString\<close> call
  either, accepts an array holding one UUID.\<close>

lemma isAscii_accepts_number:
  "isAscii example_externals t 0 (session_x (Num (Finite 5))) = (Inr 0, session_x (Num (Finite 5)))"
  by (simp add: run_defs isAscii_def isAscii_fn_def test_def re_ascii_def example_externals_def
        integer_toString_def decimal.simps)

lemma isUuid_accepts_array:
  "isUuid x Undefined (Tip Undefined) 0
       (session_x (Arr [Str ''550e8400-e29b-41d4-a716-446655440000'']))
     = (Inr 0, session_x (Arr [Str ''550e8400-e29b-41d4-a716-446655440000'']))"
  by (simp add: run_defs isUuid_def isUuid_fn_def isUuid_args_def isUuid_tip_def test_def
        re_uuid_simps uuid_examples)

text \<open>On an object with an own \<open>toString\<close>, \<open>isAscii\<close> throws the TypeError of the
  conversion.\<close>

lemma isAscii_unconvertible:
  "isAscii x t 0 (session_x (Obj [(''toString'', Str ''abc'')]))
     = (Inl TypeError, session_x (Obj [(''toString'', Str ''abc'')]))"
  by (simp add: run_defs isAscii_def isAscii_fn_def test_def)

section \<open>Assertions and early returns\<close>

text \<open>
  C9. Outside the optional state, on every current value that is not a number,
  \<open>gt(5, tip)\<close> throws the assertion's fault, which is no ValidationError, and the
  store is unchanged.
\<close>

theorem gt_non_number_asserts:
  assumes "\<not> isNumber (val this s)"
      and "\<not> (isOptional_flag (heap s this) \<and> isUndefined (val this s))"
  shows "gt (Num (Finite 5)) t this s = (Inl AssertionError, snd (isOptional this s)) \<and>
         (\<forall>k m. fst (gt (Num (Finite 5)) t this s) \<noteq> Inl (ValidationError k m)) \<and>
         vals (snd (gt (Num (Finite 5)) t this s)) = vals s \<and>
         val this (snd (gt (Num (Finite 5)) t this s)) = val this s"
proof -
  have run: "gt (Num (Finite 5)) t this s = gt_fn (Num (Finite 5)) t this (snd (isOptional this s))"
    unfolding gt_def using assms(2) by (rule addMethod_run)
  have "gt_fn (Num (Finite 5)) t this (snd (isOptional this s))
          = (Inl AssertionError, snd (isOptional this s))"
    using assms(1) by (cases "val this s") (simp_all add: gt_fn_def)
  with run show ?thesis by simp
qed

theorem gt_non_number_asserts_witness:
  "\<not> isNumber (val 0 (session_x (Str ''6''))) \<and>
   \<not> (isOptional_flag (heap (session_x (Str ''6'')) 0) \<and> isUndefined (val 0 (session_x (Str ''6'')))) \<and>
   gt (Num (Finite 5)) (Tip Undefined) 0 (session_x (Str ''6''))
     = (Inl AssertionError, session_x (Str ''6'')) \<and>
   val 0 (snd (gt (Num (Finite 5)) (Tip Undefined) 0 (session_x (Str ''6'')))) = Str ''6''"
  using gt_non_number_asserts [of 0 "session_x (Str ''6'')" "Tip Undefined"]
  by (simp add: run_defs gt_def gt_fn_def)

text \<open>
  C10. When the current value is the empty string, \<open>isBase64\<close> returns the Validator
  without throwing and leaves the store unchanged, whatever \<open>v.isBase64\<close> answers: the
  checker is not consulted.
\<close>

theorem isBase64_empty_string:
  assumes "val this s = Str []"
  shows "isBase64 x t this s = (Inr this, snd (isOptional this s)) \<and>
         vals (snd (isBase64 x t this s)) = vals s"
proof -
  let ?s = "snd (isOptional this s)"
  have ns: "\<not> (isOptional_flag (heap s this) \<and> isUndefined (val this s))"
    using assms by simp
  have run: "isBase64 x t this s = isBase64_fn x t this ?s"
    unfolding isBase64_def using ns by (rule addMethod_run)
  have off: "fst (isOptional this s) = False"
    using ns by (rule isOptional_run)
  have str: "\<And>t'. isString t' this ?s = (Inr this, ?s)"
    by (simp add: isString_def addMethod_def optionalFn_def isOptional_idem [OF off]
          isString_fn_def assms)
  have "isBase64_fn x t this ?s = (Inr this, ?s)"
    by (simp add: isBase64_fn_def chain_def str assms Let_def)
  with run show ?thesis by simp
qed

text \<open>With a checker that rejects every value, the empty string included.\<close>

theorem isBase64_empty_string_witness:
  "val 0 (session_x (Str [])) = Str [] \<and>
   \<not> v_isBase64 example_externals (Str []) \<and>
   isBase64 example_externals (Tip Undefined) 0 (session_x (Str []))
     = (Inr 0, session_x (Str [])) \<and>
   vals (snd (isBase64 example_externals (Tip Undefined) 0 (session_x (Str []))))
     = vals (session_x (Str []))"
  using isBase64_empty_string [of 0 "session_x (Str [])" example_externals "Tip Undefined"]
  by (simp add: run_defs example_externals_def isBase64_def isBase64_fn_def isString_def
        isString_fn_def)

end
